theory Spec2Isabelle
  imports Complex_Main
begin

section \<open>Virtual sites of GMSO: \<^verbatim>\<open>gmso/core/virtual_site.py\<close>\<close>

text \<open>
  The class \<^verbatim>\<open>VirtualSite\<close> is a pydantic model with three declared backing fields
  that its methods read (\<^verbatim>\<open>parent_sites_\<close>, \<^verbatim>\<open>charge_\<close>, \<^verbatim>\<open>virtual_type_\<close>), the inherited
  \<^verbatim>\<open>name\<close>, two read accessors (\<^verbatim>\<open>parent_sites\<close>, \<^verbatim>\<open>virtual_type\<close>), the method
  \<^verbatim>\<open>position()\<close> and \<^verbatim>\<open>__repr__\<close>. Python exceptions are values of a sum type, a method
  call takes the object and returns the object after the call next to its outcome, and the
  instance dictionary \<^verbatim>\<open>__dict__\<close> is read through \<open>option\<close>: \<open>None\<close> is a missing key.
  A name ending in an underscore is not a constant name here, so the backing field
  \<^verbatim>\<open>parent_sites_\<close> is \<open>parent_sites_field\<close>, and likewise for the other two.
\<close>

subsection \<open>Collaborators declared outside the file\<close>

type_synonym vec3 = "real \<times> real \<times> real"

text \<open>
  Modelled from the spec: the base class \<^verbatim>\<open>Site\<close> (\<^verbatim>\<open>gmso.abc.abstract_site\<close>) is imported, not
  defined, by the file. The spec gives it an identity/name and a queryable position, a
  3-vector in a length unit (nanometres in the examples).
\<close>

record site =
  site_name :: string
  site_position :: vec3

text \<open>
  Modelled from the spec: the symbolic expression held by a position or potential type.
  The spec only asks of it a set of named independent variables and numeric coefficients; the
  file under study never inspects it.
\<close>

datatype expr =
    Var string
  | Num real
  | Add expr expr
  | Mul expr expr

text \<open>
  Modelled from the spec: the expression holder (\<^verbatim>\<open>VirtualPositionType\<close>), a symbolic expression
  with its ordered independent variables (\<open>r_i\<close> is the first parent, \<open>r_j\<close> the second, ...).
\<close>

record virtual_position_type =
  expression :: expr
  independent_variables :: "string list"

text \<open>
  Modelled from the spec: \<^verbatim>\<open>VirtualType\<close> (\<^verbatim>\<open>gmso.core.virtual_type\<close>) with an optional position
  expression, an optional potential expression and an optional default charge (the attribute
  \<^verbatim>\<open>charge\<close> of the type, in elementary charges).
\<close>

record virtual_type =
  virtual_position :: "virtual_position_type option"
  virtual_potential :: "expr option"
  type_charge :: "real option"

text \<open>
  The exception classes the file imports from \<^verbatim>\<open>gmso.exceptions\<close>, and
  \<^verbatim>\<open>ParentSiteMismatchError\<close>. Modelled from the spec: the last one is the error kind that
  section 7 of the spec introduces; the file neither imports nor raises it.
\<close>

datatype exc_class =
    MissingPotentialError
  | NotYetImplementedWarning
  | ParentSiteMismatchError

datatype exception = Exception (exc_class: exc_class) (message: string)

subsection \<open>The class \<^verbatim>\<open>VirtualSite\<close>\<close>

text \<open>
  \<open>parent_sites_field\<close> is the entry \<^verbatim>\<open>"parent_sites_"\<close> of \<^verbatim>\<open>__dict__\<close> (a \<^verbatim>\<open>List[Site]\<close>
  when present), \<open>charge_field\<close> the optional override \<^verbatim>\<open>charge_\<close>, \<open>virtual_type_field\<close> the
  entry \<^verbatim>\<open>"virtual_type_"\<close>, where a missing key and a stored \<^verbatim>\<open>None\<close> read the same through
  \<^verbatim>\<open>__dict__.get("virtual_type_")\<close>. The field \<^verbatim>\<open>position_\<close> (a \<^verbatim>\<open>Callable\<close>, default \<^verbatim>\<open>None\<close>) is
  read by no method of the class and is left out.
\<close>

record virtual_site =
  name :: string
  parent_sites_field :: "site list option"
  charge_field :: "real option"
  virtual_type_field :: "virtual_type option"

text \<open>\<^verbatim>\<open>return self.__dict__.get("parent_sites_", [])\<close>\<close>

definition parent_sites :: "virtual_site \<Rightarrow> site list" where
  "parent_sites self = (case parent_sites_field self of None \<Rightarrow> [] | Some ps \<Rightarrow> ps)"

text \<open>\<^verbatim>\<open>return self.__dict__.get("virtual_type_")\<close>\<close>

definition virtual_type :: "virtual_site \<Rightarrow> virtual_type option" where
  "virtual_type self = virtual_type_field self"

text \<open>
  Python's \<^verbatim>\<open>not x\<close> on an optional model object: \<^verbatim>\<open>None\<close> is falsy, and an instance of a
  class that defines neither \<^verbatim>\<open>__bool__\<close> nor \<^verbatim>\<open>__len__\<close> is truthy.
\<close>

fun py_not :: "'a option \<Rightarrow> bool" where
  "py_not None = True"
| "py_not (Some x) = False"

text \<open>
  \<^verbatim>\<open>position()\<close>: two guards, each raising \<^verbatim>\<open>MissingPotentialError\<close>, then two \<^verbatim>\<open>TODO\<close> comments
  and an unconditional \<^verbatim>\<open>raise NotYetImplementedWarning(...)\<close>. No statement of the body
  assigns to anything, so the object handed back is the one received. The result type of a
  normal return is left open: the body has no \<^verbatim>\<open>return\<close>.
\<close>

definition position :: "virtual_site \<Rightarrow> (exception + 'r) \<times> virtual_site" where
  "position self =
     (if py_not (virtual_type self) then
        (Inl (Exception MissingPotentialError
               ''No VirtualType associated with this VirtualSite.''), self)
      else if py_not (virtual_position (the (virtual_type self))) then
        (Inl (Exception MissingPotentialError
               ''No VirtualPositionType associated with this VirtualType.''), self)
      else
        (Inl (Exception NotYetImplementedWarning
               ''Need a functional to call from self.virtual_type.virtual_position, and plug in ri, rj, rk etc.''),
         self))"

text \<open>\<open>raises r k\<close>: the outcome \<open>r\<close> is an exception of class \<open>k\<close>.\<close>

definition raises :: "exception + 'r \<Rightarrow> exc_class \<Rightarrow> bool" where
  "raises r k = (case r of Inl e \<Rightarrow> exc_class e = k | Inr v \<Rightarrow> False)"

text \<open>Python's \<^verbatim>\<open>sep.join(xs)\<close> on strings.\<close>

fun join :: "string \<Rightarrow> string list \<Rightarrow> string" where
  "join sep [] = []"
| "join sep [x] = x"
| "join sep (x # y # ys) = x @ sep @ join sep (y # ys)"

text \<open>
  \<^verbatim>\<open>return self.name + ": -".join(site.__repr__() for site in self.parent_sites)\<close>.
  The method call binds tighter than \<^verbatim>\<open>+\<close>: the string \<^verbatim>\<open>": -"\<close> is the separator of the join,
  and the name is put in front of the joined string. \<^verbatim>\<open>Site.__repr__\<close> is defined outside the
  file and is the parameter \<open>site_repr\<close>.
\<close>

definition repr :: "(site \<Rightarrow> string) \<Rightarrow> virtual_site \<Rightarrow> string" where
  "repr site_repr self = name self @ join '': -'' (map site_repr (parent_sites self))"

text \<open>
  The class keeps the explicit charge in the backing field \<^verbatim>\<open>charge_\<close> and defines no accessor
  that computes a charge. What it declares about the name \<^verbatim>\<open>charge\<close> is the alias table and the
  docstring (\<open>Will prioritize self.virtual_type.charge\<close>). \<open>alias_to_fields\<close> holds the
  entries that the class itself adds to \<^verbatim>\<open>model_config["alias_to_fields"]\<close>, in source order
  (those of \<^verbatim>\<open>Site\<close> are spread in from outside the file); \<open>properties\<close> holds the names that
  the class body defines under \<^verbatim>\<open>@property\<close>, in source order.
\<close>

definition alias_to_fields :: "(string \<times> string) list" where
  "alias_to_fields =
     [(''charge'', ''charge_''),
      (''virtual_type'', ''virtual_type_''),
      (''parent_sites'', ''parent_sites_'')]"

definition properties :: "string list" where
  "properties = [''parent_sites'', ''virtual_type'']"

subsection \<open>Concrete inputs\<close>

definition site_a :: site where
  "site_a = \<lparr>site_name = ''A'', site_position = (0, 0, 0)\<rparr>"

definition site_b :: site where
  "site_b = \<lparr>site_name = ''B'', site_position = (2, 0, 0)\<rparr>"

text \<open>The midpoint expression \<open>0.5*r_i + 0.5*r_j\<close> of the spec's example.\<close>

definition midpoint_expr :: expr where
  "midpoint_expr = Add (Mul (Num 0.5) (Var ''r_i'')) (Mul (Num 0.5) (Var ''r_j''))"

definition midpoint_type :: virtual_type where
  "midpoint_type =
     \<lparr>virtual_position =
        Some \<lparr>expression = midpoint_expr, independent_variables = [''r_i'', ''r_j'']\<rparr>,
      virtual_potential = None,
      type_charge = Some 0.25\<rparr>"

definition midpoint_site :: virtual_site where
  "midpoint_site =
     \<lparr>name = ''vs'', parent_sites_field = Some [site_a, site_b], charge_field = None,
      virtual_type_field = Some midpoint_type\<rparr>"

text \<open>An expression in three independent variables, on a site with two parents.\<close>

definition three_var_type :: virtual_type where
  "three_var_type =
     \<lparr>virtual_position =
        Some \<lparr>expression = Add (Var ''r_i'') (Add (Var ''r_j'') (Var ''r_k'')),
              independent_variables = [''r_i'', ''r_j'', ''r_k'']\<rparr>,
      virtual_potential = None,
      type_charge = None\<rparr>"

definition mismatch_site :: virtual_site where
  "mismatch_site =
     \<lparr>name = ''vs'', parent_sites_field = Some [site_a, site_b], charge_field = None,
      virtual_type_field = Some three_var_type\<rparr>"

text \<open>A site built with no parent list and no type, and a type with no position expression.\<close>

definition bare_site :: virtual_site where
  "bare_site =
     \<lparr>name = ''vs'', parent_sites_field = None, charge_field = None,
      virtual_type_field = None\<rparr>"

definition charge_only_type :: virtual_type where
  "charge_only_type =
     \<lparr>virtual_position = None, virtual_potential = None, type_charge = Some 0.25\<rparr>"

definition untyped_position_site :: virtual_site where
  "untyped_position_site =
     \<lparr>name = ''vs'', parent_sites_field = Some [site_a, site_b], charge_field = Some (-0.5),
      virtual_type_field = Some charge_only_type\<rparr>"

text \<open>
  A second object with the type and the parent positions of \<open>midpoint_site\<close>, and another
  name, other parent names and a charge override.
\<close>

definition midpoint_site_other :: virtual_site where
  "midpoint_site_other =
     \<lparr>name = ''lp'',
      parent_sites_field =
        Some [\<lparr>site_name = ''C'', site_position = (0, 0, 0)\<rparr>,
              \<lparr>site_name = ''D'', site_position = (2, 0, 0)\<rparr>],
      charge_field = Some 1,
      virtual_type_field = Some midpoint_type\<rparr>"

section \<open>Properties\<close>

subsection \<open>Shared facts\<close>

lemma position_snd: "snd (position self) = self"
  by (simp add: position_def)

lemma position_fst_cases:
  "fst (position self) =
     (case virtual_type self of
        None \<Rightarrow> Inl (Exception MissingPotentialError
                        ''No VirtualType associated with this VirtualSite.'')
      | Some vt \<Rightarrow>
          (case virtual_position vt of
             None \<Rightarrow> Inl (Exception MissingPotentialError
                             ''No VirtualPositionType associated with this VirtualType.'')
           | Some vp \<Rightarrow> Inl (Exception NotYetImplementedWarning
                               ''Need a functional to call from self.virtual_type.virtual_position, and plug in ri, rj, rk etc.'')))"
  by (simp add: position_def split: option.split)

subsection \<open>The method \<open>position\<close>\<close>

text \<open>
  C1, as the claim states it, at the spec's example: the type carries \<open>0.5*r_i + 0.5*r_j\<close>, the
  parents are at \<open>(0,0,0)\<close> and \<open>(2,0,0)\<close>, and the call does not return \<open>(1,0,0)\<close>.
\<close>

theorem position_midpoint_counterexample:
  "map_option expression (virtual_position (the (virtual_type midpoint_site))) = Some midpoint_expr \<and>
   map site_position (parent_sites midpoint_site) = [(0, 0, 0), (2, 0, 0)] \<and>
   \<not> (fst (position midpoint_site) = (Inr (1, 0, 0) :: exception + vec3))"
  by (simp add: position_fst_cases virtual_type_def parent_sites_def midpoint_site_def
      midpoint_type_def site_a_def site_b_def)

text \<open>
  C1, amended: for every virtual site whose type carries the position expression
  \<open>0.5*r_i + 0.5*r_j\<close> and whose two parents are at \<open>(0,0,0)\<close> and \<open>(2,0,0)\<close>, the call
  \<open>position()\<close> raises \<^verbatim>\<open>NotYetImplementedWarning\<close> with the message of the stub and returns no
  vector: the substitution and evaluation are not performed.
\<close>

theorem position_midpoint_not_implemented:
  assumes "virtual_type self = Some vt"
    and "virtual_position vt = Some vp"
    and "expression vp = midpoint_expr"
    and "map site_position (parent_sites self) = [(0, 0, 0), (2, 0, 0)]"
  shows "fst (position self) =
           (Inl (Exception NotYetImplementedWarning
                  ''Need a functional to call from self.virtual_type.virtual_position, and plug in ri, rj, rk etc.'')
             :: exception + vec3)"
  using assms(1,2) by (simp add: position_fst_cases)

theorem position_midpoint_not_implemented_witness:
  "virtual_type midpoint_site = Some midpoint_type \<and>
   virtual_position midpoint_type =
     Some \<lparr>expression = midpoint_expr, independent_variables = [''r_i'', ''r_j'']\<rparr> \<and>
   map site_position (parent_sites midpoint_site) = [(0, 0, 0), (2, 0, 0)] \<and>
   fst (position midpoint_site) =
     (Inl (Exception NotYetImplementedWarning
            ''Need a functional to call from self.virtual_type.virtual_position, and plug in ri, rj, rk etc.'')
       :: exception + vec3)"
proof -
  have t: "virtual_type midpoint_site = Some midpoint_type"
    by (simp add: virtual_type_def midpoint_site_def)
  have p: "virtual_position midpoint_type =
      Some \<lparr>expression = midpoint_expr, independent_variables = [''r_i'', ''r_j'']\<rparr>"
    by (simp add: midpoint_type_def)
  have e: "expression \<lparr>expression = midpoint_expr, independent_variables = [''r_i'', ''r_j'']\<rparr>
      = midpoint_expr"
    by simp
  have q: "map site_position (parent_sites midpoint_site) = [(0, 0, 0), (2, 0, 0)]"
    by (simp add: parent_sites_def midpoint_site_def site_a_def site_b_def)
  from position_midpoint_not_implemented [OF t p e q] t p q show ?thesis
    by simp
qed

text \<open>
  C2, as the claim states it: a type whose expression declares three independent variables, on
  a site with two parents; the call does not raise \<^verbatim>\<open>ParentSiteMismatchError\<close>.
\<close>

theorem position_mismatch_counterexample:
  "map_option (\<lambda>vp. length (independent_variables vp))
     (virtual_position (the (virtual_type mismatch_site))) = Some 3 \<and>
   length (parent_sites mismatch_site) = 2 \<and>
   \<not> raises (fst (position mismatch_site) :: exception + vec3) ParentSiteMismatchError"
  by (simp add: raises_def position_fst_cases virtual_type_def parent_sites_def
      mismatch_site_def three_var_type_def)

text \<open>
  C2, amended: for every virtual site whose type has a position expression declaring three
  independent variables and whose parent list holds two sites, \<open>position()\<close> fails with
  \<^verbatim>\<open>NotYetImplementedWarning\<close> (the parent count is not validated), and it returns no vector,
  partial, truncated, zero-padded or other.
\<close>

theorem position_mismatch_not_implemented:
  assumes "virtual_type self = Some vt"
    and "virtual_position vt = Some vp"
    and "length (independent_variables vp) = 3"
    and "length (parent_sites self) = 2"
  shows "raises (fst (position self) :: exception + vec3) NotYetImplementedWarning \<and>
         (\<forall>v :: vec3. fst (position self) \<noteq> Inr v)"
  using assms(1,2) by (simp add: raises_def position_fst_cases)

theorem position_mismatch_not_implemented_witness:
  "virtual_type mismatch_site = Some three_var_type \<and>
   map_option (\<lambda>vp. length (independent_variables vp)) (virtual_position three_var_type)
     = Some 3 \<and>
   length (parent_sites mismatch_site) = 2 \<and>
   raises (fst (position mismatch_site) :: exception + vec3) NotYetImplementedWarning \<and>
   (\<forall>v :: vec3. fst (position mismatch_site) \<noteq> Inr v)"
proof -
  let ?vp = "\<lparr>expression = Add (Var ''r_i'') (Add (Var ''r_j'') (Var ''r_k'')),
              independent_variables = [''r_i'', ''r_j'', ''r_k'']\<rparr>"
  have t: "virtual_type mismatch_site = Some three_var_type"
    by (simp add: virtual_type_def mismatch_site_def)
  have p: "virtual_position three_var_type = Some ?vp"
    by (simp add: three_var_type_def)
  have n: "length (independent_variables ?vp) = 3"
    by simp
  have q: "length (parent_sites mismatch_site) = 2"
    by (simp add: parent_sites_def mismatch_site_def)
  from position_mismatch_not_implemented [OF t p n q] t p q show ?thesis
    by simp
qed

text \<open>
  C3: a virtual site with no virtual type (the accessor \<open>virtual_type\<close> gives \<open>None\<close>) makes
  \<open>position()\<close> raise \<^verbatim>\<open>MissingPotentialError\<close>.
\<close>

theorem position_no_virtual_type:
  assumes "virtual_type self = None"
  shows "fst (position self) =
           (Inl (Exception MissingPotentialError
                  ''No VirtualType associated with this VirtualSite.'') :: exception + 'r) \<and>
         raises (fst (position self) :: exception + 'r) MissingPotentialError"
  using assms by (simp add: raises_def position_fst_cases)

theorem position_no_virtual_type_witness:
  "virtual_type bare_site = None \<and>
   raises (fst (position bare_site) :: exception + vec3) MissingPotentialError"
proof -
  have t: "virtual_type bare_site = None"
    by (simp add: virtual_type_def bare_site_def)
  from position_no_virtual_type [where 'r = vec3, OF t] t show ?thesis
    by (simp add: raises_def)
qed

text \<open>
  C4: a virtual site whose virtual type is assigned and has no position expression
  (\<open>virtual_position\<close> is \<open>None\<close>) makes \<open>position()\<close> raise \<^verbatim>\<open>MissingPotentialError\<close>.
\<close>

theorem position_no_virtual_position:
  assumes "virtual_type self = Some vt"
    and "virtual_position vt = None"
  shows "fst (position self) =
           (Inl (Exception MissingPotentialError
                  ''No VirtualPositionType associated with this VirtualType.'')
             :: exception + 'r) \<and>
         raises (fst (position self) :: exception + 'r) MissingPotentialError"
  using assms by (simp add: raises_def position_fst_cases)

theorem position_no_virtual_position_witness:
  "virtual_type untyped_position_site = Some charge_only_type \<and>
   virtual_position charge_only_type = None \<and>
   raises (fst (position untyped_position_site) :: exception + vec3) MissingPotentialError"
proof -
  have t: "virtual_type untyped_position_site = Some charge_only_type"
    by (simp add: virtual_type_def untyped_position_site_def)
  have p: "virtual_position charge_only_type = None"
    by (simp add: charge_only_type_def)
  from position_no_virtual_position [where 'r = vec3, OF t p] t p show ?thesis
    by (simp add: raises_def)
qed

text \<open>
  C6: determinism. The outcome of \<open>position()\<close> is determined by the virtual type and the
  parent positions: two calls, on the object as it is at each of them, with the same virtual
  type and the same parent positions have the same outcome (the same exception with the same
  message), whatever else differs between the two objects. In particular the second of two
  successive calls, on the object as the first call left it, has the outcome of the first.
\<close>

theorem position_deterministic:
  assumes "virtual_type s1 = virtual_type s2"
    and "map site_position (parent_sites s1) = map site_position (parent_sites s2)"
  shows "(fst (position s1) :: exception + 'r) = fst (position s2) \<and>
         (fst (position (snd (position s1 :: (exception + 'r) \<times> virtual_site)))
            :: exception + 'r) = fst (position s1)"
proof
  show "(fst (position s1) :: exception + 'r) = fst (position s2)"
    using assms(1) by (simp add: position_fst_cases)
next
  have "snd (position s1 :: (exception + 'r) \<times> virtual_site) = s1"
    by (rule position_snd)
  then show "(fst (position (snd (position s1 :: (exception + 'r) \<times> virtual_site)))
      :: exception + 'r) = fst (position s1)"
    by simp
qed

theorem position_deterministic_witness:
  "virtual_type midpoint_site = virtual_type midpoint_site_other \<and>
   map site_position (parent_sites midpoint_site)
     = map site_position (parent_sites midpoint_site_other) \<and>
   midpoint_site \<noteq> midpoint_site_other \<and>
   (fst (position midpoint_site) :: exception + vec3) = fst (position midpoint_site_other) \<and>
   (fst (position (snd (position midpoint_site :: (exception + vec3) \<times> virtual_site)))
      :: exception + vec3) = fst (position midpoint_site)"
proof -
  have t: "virtual_type midpoint_site = virtual_type midpoint_site_other"
    by (simp add: virtual_type_def midpoint_site_def midpoint_site_other_def)
  have q: "map site_position (parent_sites midpoint_site)
      = map site_position (parent_sites midpoint_site_other)"
    by (simp add: parent_sites_def midpoint_site_def midpoint_site_other_def
        site_a_def site_b_def)
  have d: "midpoint_site \<noteq> midpoint_site_other"
    by (simp add: midpoint_site_def midpoint_site_other_def)
  from position_deterministic [where 'r = vec3, OF t q] t q d show ?thesis
    by blast
qed

text \<open>
  C7: frame condition. Whatever its outcome, \<open>position()\<close> hands the object back as it received
  it: the parent list, the virtual type and the state of every parent site (its name and its
  position) are what they were.
\<close>

theorem position_frame:
  "snd (position self :: (exception + 'r) \<times> virtual_site) = self \<and>
   parent_sites (snd (position self :: (exception + 'r) \<times> virtual_site)) = parent_sites self \<and>
   virtual_type (snd (position self :: (exception + 'r) \<times> virtual_site)) = virtual_type self \<and>
   map site_name (parent_sites (snd (position self :: (exception + 'r) \<times> virtual_site)))
     = map site_name (parent_sites self) \<and>
   map site_position (parent_sites (snd (position self :: (exception + 'r) \<times> virtual_site)))
     = map site_position (parent_sites self)"
  by (simp add: position_snd)

text \<open>
  C9: \<open>position()\<close> never returns normally. Every call raises: \<^verbatim>\<open>MissingPotentialError\<close> when
  the virtual type or its position expression is absent, \<^verbatim>\<open>NotYetImplementedWarning\<close> otherwise;
  no input gives a position vector.
\<close>

theorem position_never_returns:
  "(\<forall>v :: 'r. fst (position self) \<noteq> Inr v) \<and>
   raises (fst (position self) :: exception + 'r)
     (if virtual_type self = None \<or> virtual_position (the (virtual_type self)) = None
      then MissingPotentialError else NotYetImplementedWarning)"
  by (auto simp add: raises_def position_fst_cases split: option.split)

theorem position_never_returns_witness:
  "raises (fst (position bare_site) :: exception + vec3) MissingPotentialError \<and>
   raises (fst (position untyped_position_site) :: exception + vec3) MissingPotentialError \<and>
   raises (fst (position midpoint_site) :: exception + vec3) NotYetImplementedWarning \<and>
   (\<forall>v :: vec3. fst (position midpoint_site) \<noteq> Inr v)"
  using position_never_returns [where 'r = vec3, of bare_site]
    position_never_returns [where 'r = vec3, of untyped_position_site]
    position_never_returns [where 'r = vec3, of midpoint_site]
  by (simp add: virtual_type_def bare_site_def untyped_position_site_def charge_only_type_def
      midpoint_site_def midpoint_type_def)

subsection \<open>The accessors\<close>

text \<open>
  C10: the accessor \<open>parent_sites\<close> is a function of the object alone (it has no effect and no
  failure): it returns the stored parent list as it is, in its order, and the empty list when
  no parent list is stored; the accessor \<open>virtual_type\<close> returns \<open>None\<close> when no type is stored.
\<close>

theorem accessors_total:
  "(\<forall>ps. parent_sites_field self = Some ps \<longrightarrow> parent_sites self = ps) \<and>
   (parent_sites_field self = None \<longrightarrow> parent_sites self = []) \<and>
   (virtual_type_field self = None \<longrightarrow> virtual_type self = None) \<and>
   (\<forall>vt. virtual_type_field self = Some vt \<longrightarrow> virtual_type self = Some vt)"
  by (simp add: parent_sites_def virtual_type_def)

theorem accessors_total_witness:
  "parent_sites_field bare_site = None \<and> parent_sites bare_site = [] \<and>
   virtual_type_field bare_site = None \<and> virtual_type bare_site = None \<and>
   parent_sites_field midpoint_site = Some [site_a, site_b] \<and>
   parent_sites midpoint_site = [site_a, site_b] \<and>
   virtual_type_field midpoint_site = Some midpoint_type \<and>
   virtual_type midpoint_site = Some midpoint_type"
proof -
  have b: "parent_sites_field bare_site = None" "virtual_type_field bare_site = None"
    by (simp_all add: bare_site_def)
  have m: "parent_sites_field midpoint_site = Some [site_a, site_b]"
    "virtual_type_field midpoint_site = Some midpoint_type"
    by (simp_all add: midpoint_site_def)
  from accessors_total [of bare_site] accessors_total [of midpoint_site] b m
  show ?thesis by simp
qed

subsection \<open>The representation\<close>

text \<open>
  C8, evaluated at a site named \<open>vs\<close> with the two parents \<open>A\<close> and \<open>B\<close>, each parent rendered as
  its name: the hyphen-joined rendering of the parents is \<open>A-B\<close>, and the representation is
  \<open>vsA: -B\<close>, which does not hold it. The separator of the join is the three characters
  colon, space, hyphen, and nothing stands between the name and the first parent. The same
  holds of every site with two parents, whatever the rendering \<open>site_repr\<close> of a parent is.
\<close>

theorem repr_two_parents:
  "name midpoint_site = ''vs'' \<and>
   map site_name (parent_sites midpoint_site) = [''A'', ''B''] \<and>
   join ''-'' (map site_name (parent_sites midpoint_site)) = ''A-B'' \<and>
   repr site_name midpoint_site = ''vsA: -B'' \<and>
   repr site_repr (self\<lparr>parent_sites_field := Some [p, q]\<rparr>)
     = name self @ site_repr p @ '': -'' @ site_repr q"
  by (simp add: repr_def parent_sites_def midpoint_site_def site_a_def site_b_def)

subsection \<open>The charge\<close>

text \<open>
  C5, evaluated at \<open>midpoint_site\<close>, a site with no charge override whose virtual type carries
  the default charge \<open>0.25\<close>: the only charge the object holds is the unset backing field.
  Of the three aliases that the class declares, \<open>charge\<close> is the one with no accessor, so no
  code of the class gives the charge of the type.
\<close>

theorem charge_no_accessor:
  "charge_field midpoint_site = None \<and>
   map_option type_charge (virtual_type midpoint_site) = Some (Some 0.25) \<and>
   map_of alias_to_fields ''charge'' = Some ''charge_'' \<and>
   filter (\<lambda>a. a \<notin> set properties) (map fst alias_to_fields) = [''charge'']"
  by (simp add: alias_to_fields_def properties_def virtual_type_def midpoint_site_def
      midpoint_type_def)

end
